theory Spec2Isabelle
  imports Complex_Main
begin

section \<open>Python values, errors and the console\<close>

text \<open>
  The module \<^verbatim>\<open>augmentation_base.py\<close> is embedded function by function.  Exceptions are
  values of \<open>py_error\<close>; a call returns a result together with the state it leaves behind,
  also when it raises.
\<close>

datatype py_error =
    EOFError
  | UnboundLocalError string
  | OSError string
  | KeyError
  | NotImplementedError string

text \<open>
  A Python float is compared only (never computed with), so it is a real number or one
  of the three special values; \<open>float_le\<close> is the comparison \<^verbatim>\<open><=\<close>, false whenever
  an operand is NaN.
\<close>

datatype pyfloat = Finite real | PosInf | NegInf | NaN

fun float_le :: "pyfloat \<Rightarrow> pyfloat \<Rightarrow> bool" where
  "float_le NaN _ = False"
| "float_le _ NaN = False"
| "float_le NegInf _ = True"
| "float_le _ PosInf = True"
| "float_le (Finite x) (Finite y) = (x \<le> y)"
| "float_le _ _ = False"

text \<open>The chained comparison \<^verbatim>\<open>0 <= bias <= 1\<close>.\<close>

definition in_unit_interval :: "pyfloat \<Rightarrow> bool" where
  "in_unit_interval bias = (float_le (Finite 0) bias \<and> float_le bias (Finite 1))"

datatype pyval =
    PyNone
  | PyBool bool
  | PyInt int
  | PyFloat pyfloat
  | PyStr string
  | PyList "pyval list"
  | PyTuple "pyval list"

text \<open>
  The console: the lines still to be read from standard input, and the text written to
  standard output so far.  \<^verbatim>\<open>print(s)\<close> writes \<open>s\<close> and a newline; \<^verbatim>\<open>input(prompt)\<close>
  writes the prompt, then reads one line, and raises \<^verbatim>\<open>EOFError\<close> when none is left.
\<close>

record console =
  stdin :: "string list"
  stdout :: string

definition py_print :: "string \<Rightarrow> console \<Rightarrow> console" where
  "py_print s c = c\<lparr>stdout := stdout c @ s @ [CHR 0x0A]\<rparr>"

definition py_input :: "string \<Rightarrow> console \<Rightarrow> (py_error + string) \<times> console" where
  "py_input prompt c =
     (let c1 = c\<lparr>stdout := stdout c @ prompt\<rparr>
      in case stdin c1 of
           [] \<Rightarrow> (Inl EOFError, c1)
         | l # ls \<Rightarrow> (Inr l, c1\<lparr>stdin := ls\<rparr>))"

section \<open>What the module imports\<close>

text \<open>
  \<^verbatim>\<open>MOUNT_PATH\<close> (from \<^verbatim>\<open>configs.local_variables\<close>) and \<^verbatim>\<open>default_settings\<close> (from
  \<^verbatim>\<open>augmentation.augmentation_params\<close>) are constants of modules that are not part of the
  source at hand, so they are parameters here; \<open>settings\<close> has the four keys the module
  reads.  \<open>path_exists\<close> is the answer of \<^verbatim>\<open>os.path.exists\<close> and \<open>py_float\<close> is the
  builtin \<^verbatim>\<open>float\<close> on strings (\<open>None\<close> when it raises \<^verbatim>\<open>ValueError\<close>).
\<close>

record settings =
  ds_method :: string
  ds_name :: string
  ds_folder :: string
  ds_bias_ratio :: pyfloat

record env =
  MOUNT_PATH :: string
  default_settings :: settings
  path_exists :: "string \<Rightarrow> bool"
  py_float :: "string \<Rightarrow> pyfloat option"

section \<open>The base class AugmentationMethod\<close>

record ('k, 'v) augmentation_method =
  name :: string
  map_ratio :: "'k \<rightharpoonup> 'v"
  folder :: string
  bias_ratio :: pyfloat

subsection \<open>get_bias_ratio_input\<close>

text \<open>The header line and the text of the first \<^verbatim>\<open>print\<close>; the method reads only \<^verbatim>\<open>self.name\<close>.\<close>

definition headerstring :: "string \<Rightarrow> string" where
  "headerstring self_name =
     '' EagerMOT'' @ replicate (25 - length self_name) CHR '' '' @ self_name"

definition bias_ratio_banner :: "string \<Rightarrow> string" where
  "bias_ratio_banner self_name =
     ''Insert bias ratio in the range [0, 1]:'' @ [CHR 0x0A] @ headerstring self_name
       @ [CHR 0x0A] @ '' 1 ----------------------------- 0''"

text \<open>The \<^verbatim>\<open>while True\<close> loop: one line is read in each round.\<close>

function get_bias_ratio_loop :: "env \<Rightarrow> console \<Rightarrow> (py_error + pyfloat) \<times> console" where
  "get_bias_ratio_loop e c =
     (case py_input [] c of
        (Inl err, c1) \<Rightarrow> (Inl err, c1)
      | (Inr l, c1) \<Rightarrow>
          (case py_float e l of
             None \<Rightarrow> get_bias_ratio_loop e (py_print ''Please print a number.'' c1)
           | Some bias \<Rightarrow>
               if in_unit_interval bias then (Inr bias, c1)
               else get_bias_ratio_loop e
                      (py_print ''Bias ratio outside of permitted range'' c1)))"
  by pat_completeness auto
termination
  by (relation "measure (\<lambda>(e, c). length (stdin c))")
     (auto simp: py_input_def py_print_def Let_def split: list.splits)

declare get_bias_ratio_loop.simps [simp del]

definition get_bias_ratio_input :: "env \<Rightarrow> string \<Rightarrow> console \<Rightarrow> (py_error + pyfloat) \<times> console" where
  "get_bias_ratio_input e self_name c =
     get_bias_ratio_loop e (py_print (bias_ratio_banner self_name) c)"

subsection \<open>get_source_folder_address\<close>

definition default_answers :: "string list" where
  "default_answers =
     [''y'', ''Y'', ''yes'', ''YES'', ''Yes'', ''1'', ''default'', ''DEFAULT'', ''Default'']"

definition default_path :: "env \<Rightarrow> string \<Rightarrow> string" where
  "default_path e self_name = MOUNT_PATH e @ ''/Embeddings/'' @ self_name @ ''/''"

text \<open>The \<^verbatim>\<open>while True\<close> loop of the branch in which the default folder is declined.\<close>

function custom_folder_loop :: "env \<Rightarrow> console \<Rightarrow> (py_error + string) \<times> console" where
  "custom_folder_loop e c =
     (case py_input (MOUNT_PATH e) c of
        (Inl err, c1) \<Rightarrow> (Inl err, c1)
      | (Inr userpath, c1) \<Rightarrow>
          (let custom_folder_addr = MOUNT_PATH e @ userpath
           in if \<not> path_exists e custom_folder_addr
              then custom_folder_loop e
                     (py_print ''Error: folder does not exist. Input again'' c1)
              else (Inr custom_folder_addr, c1)))"
  by pat_completeness auto
termination
  by (relation "measure (\<lambda>(e, c). length (stdin c))")
     (auto simp: py_input_def py_print_def Let_def split: list.splits)

declare custom_folder_loop.simps [simp del]

definition get_source_folder_address ::
  "env \<Rightarrow> string \<Rightarrow> console \<Rightarrow> (py_error + string) \<times> console" where
  "get_source_folder_address e self_name c =
     (let c1 = py_print (''The default folder is '' @ default_path e self_name) c;
          c2 = py_print ''Are your results saved in the default folder? [y/n]'' c1
      in case py_input [] c2 of
           (Inl err, c3) \<Rightarrow> (Inl err, c3)
         | (Inr savechoice, c3) \<Rightarrow>
             if savechoice \<notin> set default_answers
             then custom_folder_loop e
                    (py_print ''Please write the path to your saved results.'' c3)
             else (Inr (default_path e self_name), c3))"

subsection \<open>The constructor and the accessors\<close>

text \<open>
  \<^verbatim>\<open>self.setup_map_ratio\<close> is the subclass's override, so the constructor takes it as an
  argument.  The object is built once every attribute is known; the two interactive
  methods are called with the one attribute they read, \<^verbatim>\<open>self.name\<close>.
\<close>

definition AugmentationMethod_init ::
  "env \<Rightarrow> ('t \<Rightarrow> py_error + ('k \<rightharpoonup> 'v)) \<Rightarrow> string \<Rightarrow> bool \<Rightarrow> 't \<Rightarrow> console
     \<Rightarrow> (py_error + ('k, 'v) augmentation_method) \<times> console" where
  "AugmentationMethod_init e setup_map_ratio method_name automatic_init eagermot_thresholds c =
     (case setup_map_ratio eagermot_thresholds of
        Inl err \<Rightarrow> (Inl err, c)
      | Inr mr \<Rightarrow>
          if automatic_init
          then (Inr \<lparr>name = method_name, map_ratio = mr,
                     folder = ds_folder (default_settings e),
                     bias_ratio = ds_bias_ratio (default_settings e)\<rparr>, c)
          else (case get_source_folder_address e method_name c of
                  (Inl err, c1) \<Rightarrow> (Inl err, c1)
                | (Inr fld, c1) \<Rightarrow>
                    (case get_bias_ratio_input e method_name c1 of
                       (Inl err, c2) \<Rightarrow> (Inl err, c2)
                     | (Inr bias, c2) \<Rightarrow>
                         (Inr \<lparr>name = method_name, map_ratio = mr,
                                folder = fld, bias_ratio = bias\<rparr>, c2))))"

definition get_name :: "('k, 'v) augmentation_method \<Rightarrow> pyval" where
  "get_name self = PyStr (name self)"

definition get_folder :: "('k, 'v) augmentation_method \<Rightarrow> string" where
  "get_folder self = folder self"


text \<open>\<^verbatim>\<open>self.map_ratio[class_target]\<close> raises \<^verbatim>\<open>KeyError\<close> on a key the dictionary lacks.\<close>

definition get_map_ratio :: "('k, 'v) augmentation_method \<Rightarrow> 'k \<Rightarrow> py_error + 'v" where
  "get_map_ratio self class_target =
     (case map_ratio self class_target of None \<Rightarrow> Inl KeyError | Some v \<Rightarrow> Inr v)"

text \<open>The abstract methods of the base class.\<close>

definition AugmentationMethod_setup_map_ratio :: "'t \<Rightarrow> py_error + ('k \<rightharpoonup> 'v)" where
  "AugmentationMethod_setup_map_ratio eagermot_thresholds =
     Inl (NotImplementedError ''The child class must override setup_map_ratio!'')"

definition AugmentationMethod_get_features ::
  "('k, 'v) augmentation_method \<Rightarrow> pyval list \<Rightarrow> pyval list \<Rightarrow> 's \<Rightarrow> (py_error + pyval) \<times> 's" where
  "AugmentationMethod_get_features self detected_instances tracks s =
     (Inl (NotImplementedError ''The child class must override get_features!''), s)"

definition AugmentationMethod_evaluate_score ::
  "('k, 'v) augmentation_method \<Rightarrow> pyval \<Rightarrow> pyval \<Rightarrow> 's \<Rightarrow> (py_error + pyval) \<times> 's" where
  "AugmentationMethod_evaluate_score self element_0 element_1 s =
     (Inl (NotImplementedError ''The child class must override evaluate_score!''), s)"

section \<open>Files and JSON\<close>

text \<open>
  The file system as the module uses it: the text of each regular file, by path, and the
  answer of the operating system to \<^verbatim>\<open>open(p, 'w')\<close> (it refuses, with an \<^verbatim>\<open>OSError\<close>, when
  the directory of \<open>p\<close> does not exist, when \<open>p\<close> is a directory, or when access is denied).
\<close>

record filesystem =
  files :: "string \<rightharpoonup> string"
  can_open_w :: "string \<Rightarrow> bool"

text \<open>\<^verbatim>\<open>os.path.join\<close> of two components (POSIX).\<close>

definition path_join :: "string \<Rightarrow> string \<Rightarrow> string" where
  "path_join a b =
     (if take 1 b = ''/'' then b
      else if a = [] \<or> last a = CHR ''/'' then a @ b
      else a @ ''/'' @ b)"

text \<open>
  The values that \<^verbatim>\<open>json.dump\<close> is given in this module, and the text it writes for them
  with \<^verbatim>\<open>indent=4\<close>: the members of a non-empty object each on a line of their own, one
  level deeper, separated by commas, a key and its value by a colon and a space.  Keys
  are quoted; a double quote or a backslash inside one is escaped with a backslash.
\<close>

datatype json = JNull | JObject "(string \<times> json) list"

definition json_string :: "string \<Rightarrow> string" where
  "json_string s =
     [CHR 0x22]
       @ concat (map (\<lambda>ch. if ch = CHR 0x22 \<or> ch = CHR 0x5C then [CHR 0x5C, ch] else [ch]) s)
       @ [CHR 0x22]"

definition newline_indent :: "nat \<Rightarrow> nat \<Rightarrow> string" where
  "newline_indent indent level = CHR 0x0A # replicate (indent * level) CHR '' ''"

fun join_with :: "string \<Rightarrow> string list \<Rightarrow> string" where
  "join_with sep [] = []"
| "join_with sep [x] = x"
| "join_with sep (x # y # ys) = x @ sep @ join_with sep (y # ys)"

fun json_dump :: "nat \<Rightarrow> nat \<Rightarrow> json \<Rightarrow> string" where
  "json_dump indent level JNull = ''null''"
| "json_dump indent level (JObject []) = ''{}''"
| "json_dump indent level (JObject kvs) =
     ''{'' @ newline_indent indent (Suc level)
       @ join_with ('','' @ newline_indent indent (Suc level))
           (map (\<lambda>(k, v). json_string k @ '': '' @ json_dump indent (Suc level) v) kvs)
       @ newline_indent indent level @ ''}''"

section \<open>The subclass DoNotAugment\<close>

definition DoNotAugment_setup_map_ratio :: "('k \<rightharpoonup> 'v) \<Rightarrow> py_error + ('k \<rightharpoonup> 'v)" where
  "DoNotAugment_setup_map_ratio eagermot_thresholds = Inr eagermot_thresholds"

definition DoNotAugment_init ::
  "env \<Rightarrow> ('k \<rightharpoonup> 'v) \<Rightarrow> console \<Rightarrow> (py_error + ('k, 'v) augmentation_method) \<times> console" where
  "DoNotAugment_init e eagermot_thresholds c =
     AugmentationMethod_init e DoNotAugment_setup_map_ratio ''DoNotAugment'' True
       eagermot_thresholds c"

definition DoNotAugment_save_augmentation_parameters ::
  "('k, 'v) augmentation_method \<Rightarrow> string \<Rightarrow> filesystem \<Rightarrow> (py_error + pyval) \<times> filesystem" where
  "DoNotAugment_save_augmentation_parameters self save_path fs =
     (let params_to_write = JObject [(''None'', JNull)];
          params_file = path_join save_path ''No_augmentation_used.json''
      in if can_open_w fs params_file
         then (Inr PyNone, fs\<lparr>files := (files fs)(params_file \<mapsto> json_dump 4 0 params_to_write)\<rparr>)
         else (Inl (OSError params_file), fs))"

definition DoNotAugment_get_name :: "('k, 'v) augmentation_method \<Rightarrow> pyval" where
  "DoNotAugment_get_name self = PyBool False"

text \<open>
  The two overrides whose body is \<^verbatim>\<open>pass\<close>.  Whatever state the program has (\<open>s\<close>) is
  handed back as it was, and so is the object.
\<close>

definition DoNotAugment_get_features ::
  "('k, 'v) augmentation_method \<Rightarrow> pyval list \<Rightarrow> pyval list \<Rightarrow> 's
     \<Rightarrow> (py_error + pyval) \<times> ('k, 'v) augmentation_method \<times> 's" where
  "DoNotAugment_get_features self detected_instances tracks s = (Inr PyNone, self, s)"

definition DoNotAugment_evaluate_score ::
  "('k, 'v) augmentation_method \<Rightarrow> pyval \<Rightarrow> pyval \<Rightarrow> 's
     \<Rightarrow> (py_error + pyval) \<times> ('k, 'v) augmentation_method \<times> 's" where
  "DoNotAugment_evaluate_score self element_0 element_1 s = (Inr PyNone, self, s)"

section \<open>The factory\<close>

text \<open>
  \<^verbatim>\<open>create_child_object\<close> is a local name of \<^verbatim>\<open>create_child_class_object\<close>, bound by the
  import inside the \<^verbatim>\<open>if\<close> and nowhere else; reading it unbound raises
  \<^verbatim>\<open>UnboundLocalError\<close>.  The function it is bound to lives in
  \<^verbatim>\<open>augmentation.visual_similarity_2d\<close>, which is not part of the source at hand, so it is
  the parameter \<open>vis_sim_2d_create_child_object\<close>.
\<close>

definition create_child_class_object ::
  "(string \<Rightarrow> bool \<Rightarrow> 't \<Rightarrow> 's \<Rightarrow> (py_error + 'o) \<times> 's)
     \<Rightarrow> string \<Rightarrow> string \<Rightarrow> bool \<Rightarrow> 't \<Rightarrow> 's \<Rightarrow> (py_error + 'o) \<times> 's" where
  "create_child_class_object vis_sim_2d_create_child_object method_identifier nm
       automatic_init eagermot_thresholds s =
     (let create_child_object =
            (if method_identifier = ''vis_sim_2d''
             then Some vis_sim_2d_create_child_object else None)
      in case create_child_object of
           None \<Rightarrow> (Inl (UnboundLocalError ''create_child_object''), s)
         | Some f \<Rightarrow> f nm automatic_init eagermot_thresholds s)"

section \<open>The contract of the module's documentation\<close>

text \<open>
  The module's docstring asks of every child class that \<^verbatim>\<open>evaluate_score\<close> return a score
  in \<open>[0, 1] \<union> {-1}\<close>, and that \<^verbatim>\<open>get_features\<close> return one vector of features for the
  detections and one for the tracks, each as long as the vector it was computed from.
\<close>

definition valid_score :: "pyval \<Rightarrow> bool" where
  "valid_score v =
     (case v of
        PyFloat x \<Rightarrow> in_unit_interval x \<or> x = Finite (- 1)
      | PyInt i \<Rightarrow> i = 0 \<or> i = 1 \<or> i = - 1
      | _ \<Rightarrow> False)"

definition features_aligned :: "pyval list \<Rightarrow> pyval list \<Rightarrow> pyval \<Rightarrow> bool" where
  "features_aligned detected_instances tracks v =
     (case v of
        PyTuple [PyList fd, PyList ft] \<Rightarrow>
          length fd = length detected_instances \<and> length ft = length tracks
      | _ \<Rightarrow> False)"

section \<open>What the interactive loops write\<close>

text \<open>
  A line that \<^verbatim>\<open>get_bias_ratio_input\<close> does not accept is one that \<^verbatim>\<open>float\<close> cannot parse
  (the \<^verbatim>\<open>except ValueError\<close> branch) or whose value fails \<^verbatim>\<open>0 <= bias <= 1\<close>; the loop
  answers it with \<open>bias_retry_prompt\<close> and reads again.
\<close>

definition bias_rejected :: "env \<Rightarrow> string \<Rightarrow> bool" where
  "bias_rejected e l =
     (case py_float e l of None \<Rightarrow> True | Some bias \<Rightarrow> \<not> in_unit_interval bias)"

definition bias_retry_prompt :: "env \<Rightarrow> string \<Rightarrow> string" where
  "bias_retry_prompt e l =
     (case py_float e l of
        None \<Rightarrow> ''Please print a number.''
      | Some bias \<Rightarrow> ''Bias ratio outside of permitted range'') @ [CHR 0x0A]"

text \<open>
  \<^verbatim>\<open>get_source_folder_address\<close> opens with two lines; each round of its loop writes the
  prompt \<^verbatim>\<open>MOUNT_PATH\<close> and, for a path that does not exist, the error line.
\<close>

definition folder_question :: "env \<Rightarrow> string \<Rightarrow> string" where
  "folder_question e self_name =
     ''The default folder is '' @ default_path e self_name @ [CHR 0x0A]
       @ ''Are your results saved in the default folder? [y/n]'' @ [CHR 0x0A]"

definition folder_retry_prompt :: "env \<Rightarrow> string" where
  "folder_retry_prompt e =
     MOUNT_PATH e @ ''Error: folder does not exist. Input again'' @ [CHR 0x0A]"

definition folder_missing :: "env \<Rightarrow> string \<Rightarrow> bool" where
  "folder_missing e userpath = (\<not> path_exists e (MOUNT_PATH e @ userpath))"

section \<open>Example data\<close>

text \<open>
  A concrete environment, console, thresholds dictionary, object and file system, on
  which the theorems below are instantiated.  \<open>py_float\<close> is \<^verbatim>\<open>float\<close> on the lines of
  the example console: two of them are numbers, every other line is not.
\<close>

definition demo_env :: env where
  "demo_env =
     \<lparr>MOUNT_PATH = ''/mnt'',
      default_settings =
        \<lparr>ds_method = ''vis_sim_2d'', ds_name = ''VisualSimilarity2D'',
         ds_folder = ''/mnt/Embeddings/VisualSimilarity2D/'', ds_bias_ratio = Finite (1 / 2)\<rparr>,
      path_exists = (\<lambda>p. p = ''/mnt/features''),
      py_float = (\<lambda>l. if l = ''0.25'' then Some (Finite (1 / 4))
                       else if l = ''2'' then Some (Finite 2) else None)\<rparr>"


definition demo_console :: console where
  "demo_console = \<lparr>stdin = [''n'', ''/nowhere'', ''/features'', ''abc'', ''2'', ''0.25'', ''rest''],
                    stdout = []\<rparr>"

definition demo_thresholds :: "int \<rightharpoonup> real" where
  "demo_thresholds = [1 \<mapsto> 7 / 10, 2 \<mapsto> 3]"

definition demo_self :: "(int, real) augmentation_method" where
  "demo_self =
     \<lparr>name = ''DoNotAugment'', map_ratio = demo_thresholds,
      folder = ''/mnt/Embeddings/VisualSimilarity2D/'', bias_ratio = Finite (1 / 2)\<rparr>"

definition demo_fs :: filesystem where
  "demo_fs = \<lparr>files = Map.empty, can_open_w = (\<lambda>p. take 9 p = ''/results/'')\<rparr>"

section \<open>Lists split at the first accepted line\<close>

lemma split_at_first_accepted:
  "(dropWhile P xs = l # rest) \<longleftrightarrow>
     (\<exists>pre. xs = pre @ l # rest \<and> (\<forall>x\<in>set pre. P x) \<and> \<not> P l)"
proof
  assume h: "dropWhile P xs = l # rest"
  have "xs = takeWhile P xs @ l # rest"
    using h takeWhile_dropWhile_id [of P xs] by simp
  moreover have "\<forall>x\<in>set (takeWhile P xs). P x"
    by (auto dest: set_takeWhileD)
  moreover have "\<not> P l"
    using h hd_dropWhile [of P xs] by auto
  ultimately show "\<exists>pre. xs = pre @ l # rest \<and> (\<forall>x\<in>set pre. P x) \<and> \<not> P l"
    by blast
next
  assume "\<exists>pre. xs = pre @ l # rest \<and> (\<forall>x\<in>set pre. P x) \<and> \<not> P l"
  then show "dropWhile P xs = l # rest"
    by auto
qed

lemma takeWhile_rejected_prefix:
  "(\<forall>x\<in>set pre. P x) \<Longrightarrow> \<not> P l \<Longrightarrow> takeWhile P (pre @ l # rest) = pre"
  by (simp add: takeWhile_append2)

section \<open>The factory on an identifier it does not know\<close>

lemma create_child_class_object_unbound:
  "method_identifier \<noteq> ''vis_sim_2d'' \<Longrightarrow>
   create_child_class_object f method_identifier nm automatic_init eagermot_thresholds s =
     (Inl (UnboundLocalError ''create_child_object''), s)"
  by (simp add: create_child_class_object_def)

lemma create_child_class_object_registered:
  "create_child_class_object f ''vis_sim_2d'' nm automatic_init eagermot_thresholds s =
     f nm automatic_init eagermot_thresholds s"
  by (simp add: create_child_class_object_def)

text \<open>
  C1.  The specification asks that \<^verbatim>\<open>create_child_class_object\<close>, called with an
  identifier other than \<^verbatim>\<open>"vis_sim_2d"\<close>, raise a declared configuration error that names
  the unknown method.  The function has no branch for such an identifier: at
  \<^verbatim>\<open>"lidar_sim_3d"\<close> the import is skipped, the local name \<^verbatim>\<open>create_child_object\<close> is
  read unbound, and the call ends in \<^verbatim>\<open>UnboundLocalError\<close>, whatever the other arguments
  are.
\<close>

theorem create_child_class_object_unregistered:
  "create_child_class_object f ''lidar_sim_3d'' nm automatic_init eagermot_thresholds s =
     (Inl (UnboundLocalError ''create_child_object''), s)"
  by (simp add: create_child_class_object_def)

section \<open>The overrides of DoNotAugment\<close>

text \<open>
  C3.  The specification, as the module's docstring, asks that \<^verbatim>\<open>evaluate_score\<close> of
  every concrete subclass, \<^verbatim>\<open>DoNotAugment\<close> included, return a score in
  \<open>[0, 1] \<union> {-1}\<close>.  \<^verbatim>\<open>DoNotAugment.evaluate_score\<close> returns \<^verbatim>\<open>None\<close> for every pair of
  elements, and \<^verbatim>\<open>None\<close> is not such a score.
\<close>

theorem DoNotAugment_evaluate_score_no_score:
  "fst (DoNotAugment_evaluate_score self element_0 element_1 s) = Inr PyNone
   \<and> \<not> valid_score PyNone"
  by (simp add: DoNotAugment_evaluate_score_def valid_score_def)

text \<open>
  C4.  The specification, as the module's docstring, asks that \<^verbatim>\<open>get_features\<close> of every
  concrete subclass, \<^verbatim>\<open>DoNotAugment\<close> included, return two sequences as long as the
  detections and the tracks.  \<^verbatim>\<open>DoNotAugment.get_features\<close> returns \<^verbatim>\<open>None\<close> for every pair of vectors, and \<^verbatim>\<open>None\<close>
  is not a pair of sequences.
\<close>

theorem DoNotAugment_get_features_no_features:
  "fst (DoNotAugment_get_features self detected_instances tracks s) = Inr PyNone
   \<and> \<not> features_aligned detected_instances tracks PyNone"
  by (simp add: DoNotAugment_get_features_def features_aligned_def)

text \<open>
  C5.  On a \<^verbatim>\<open>DoNotAugment\<close> instance, \<^verbatim>\<open>get_features\<close> and \<^verbatim>\<open>evaluate_score\<close> return
  \<^verbatim>\<open>None\<close> for every input, and leave the object and the state of the program as they
  were.
\<close>

theorem DoNotAugment_pass_methods:
  "DoNotAugment_get_features self detected_instances tracks s = (Inr PyNone, self, s)
   \<and> DoNotAugment_evaluate_score self element_0 element_1 s = (Inr PyNone, self, s)"
  by (simp add: DoNotAugment_get_features_def DoNotAugment_evaluate_score_def)

lemma DoNotAugment_init_result:
  "DoNotAugment_init e d c =
     (Inr \<lparr>name = ''DoNotAugment'', map_ratio = d,
            folder = ds_folder (default_settings e),
            bias_ratio = ds_bias_ratio (default_settings e)\<rparr>, c)"
  by (simp add: DoNotAugment_init_def AugmentationMethod_init_def DoNotAugment_setup_map_ratio_def)

lemma json_dump_None_null:
  "json_dump 4 0 (JObject [(''None'', JNull)]) =
     ''{'' @ [CHR 0x0A] @ ''    '' @ [CHR 0x22] @ ''None'' @ [CHR 0x22] @ '': null''
       @ [CHR 0x0A] @ ''}''"
  by (simp add: newline_indent_def json_string_def eval_nat_numeral)

text \<open>
  C6 (amended).  For every \<^verbatim>\<open>save_path\<close> at which the file
  \<^verbatim>\<open>path.join(save_path, "No_augmentation_used.json")\<close> can be opened for writing,
  \<^verbatim>\<open>DoNotAugment.save_augmentation_parameters\<close> returns \<^verbatim>\<open>None\<close> and changes the file
  system at that one path only, whose content becomes the text that \<^verbatim>\<open>json.dump\<close> writes
  for \<^verbatim>\<open>{"None": None}\<close> with \<^verbatim>\<open>indent=4\<close>: an opening brace, the line
  \<^verbatim>\<open>    "None": null\<close>, and a closing brace.  The path is \<^verbatim>\<open>save_path\<close>, a slash unless
  \<^verbatim>\<open>save_path\<close> is empty or ends with one, and the file name.
\<close>

theorem save_augmentation_parameters_writes_file:
  assumes "can_open_w fs (path_join save_path ''No_augmentation_used.json'')"
  shows "DoNotAugment_save_augmentation_parameters self save_path fs =
           (Inr PyNone,
            fs\<lparr>files := (files fs)(path_join save_path ''No_augmentation_used.json'' \<mapsto>
                    ''{'' @ [CHR 0x0A] @ ''    '' @ [CHR 0x22] @ ''None'' @ [CHR 0x22] @ '': null''
                      @ [CHR 0x0A] @ ''}'')\<rparr>)
         \<and> json_dump 4 0 (JObject [(''None'', JNull)]) =
             ''{'' @ [CHR 0x0A] @ ''    '' @ [CHR 0x22] @ ''None'' @ [CHR 0x22] @ '': null''
               @ [CHR 0x0A] @ ''}''
         \<and> path_join save_path ''No_augmentation_used.json'' =
             save_path @ (if save_path = [] \<or> last save_path = CHR ''/'' then [] else ''/'')
               @ ''No_augmentation_used.json''"
proof -
  have "DoNotAugment_save_augmentation_parameters self save_path fs =
          (Inr PyNone,
           fs\<lparr>files := (files fs)(path_join save_path ''No_augmentation_used.json'' \<mapsto>
                   json_dump 4 0 (JObject [(''None'', JNull)]))\<rparr>)"
    using assms by (simp add: DoNotAugment_save_augmentation_parameters_def Let_def)
  moreover have "path_join save_path ''No_augmentation_used.json'' =
      save_path @ (if save_path = [] \<or> last save_path = CHR ''/'' then [] else ''/'')
        @ ''No_augmentation_used.json''"
    by (simp add: path_join_def)
  ultimately show ?thesis
    by (simp only: json_dump_None_null simp_thms)
qed

theorem save_augmentation_parameters_writes_file_witness:
  "can_open_w demo_fs (path_join ''/results'' ''No_augmentation_used.json'')
   \<and> DoNotAugment_save_augmentation_parameters demo_self ''/results'' demo_fs =
       (Inr PyNone,
        demo_fs\<lparr>files := (files demo_fs)(''/results/No_augmentation_used.json'' \<mapsto>
                    ''{'' @ [CHR 0x0A] @ ''    '' @ [CHR 0x22] @ ''None'' @ [CHR 0x22] @ '': null''
                      @ [CHR 0x0A] @ ''}'')\<rparr>)"
proof -
  have pj: "path_join ''/results'' ''No_augmentation_used.json'' = ''/results/No_augmentation_used.json''"
    by (simp add: path_join_def)
  have h: "can_open_w demo_fs (path_join ''/results'' ''No_augmentation_used.json'')"
    by (simp add: pj demo_fs_def)
  show ?thesis
    using h save_augmentation_parameters_writes_file [OF h, of demo_self]
    by (simp add: pj)
qed

text \<open>
  C6, as first stated for every path argument, fails: where the directory does not exist the
  \<^verbatim>\<open>open\<close> raises, and no file is written.
\<close>

theorem save_augmentation_parameters_counterexample:
  "DoNotAugment_save_augmentation_parameters demo_self ''/missing'' demo_fs =
     (Inl (OSError ''/missing/No_augmentation_used.json''), demo_fs)
   \<and> files demo_fs ''/missing/No_augmentation_used.json'' = None"
  by (simp add: DoNotAugment_save_augmentation_parameters_def path_join_def demo_fs_def Let_def)

section \<open>The accessors\<close>

text \<open>
  C9.  \<^verbatim>\<open>get_name\<close> of the base class returns the method name the instance was constructed
  with, as a string.  A \<^verbatim>\<open>DoNotAugment\<close> instance is always constructed, its attribute
  \<^verbatim>\<open>name\<close> is the string \<^verbatim>\<open>'DoNotAugment'\<close>, and its own \<^verbatim>\<open>get_name\<close> returns \<^verbatim>\<open>False\<close>.
\<close>

theorem get_name_results:
  "(AugmentationMethod_init e setup_map_ratio method_name automatic_init thr c = (Inr self, c')
      \<longrightarrow> get_name self = PyStr method_name)
   \<and> (\<exists>dna. DoNotAugment_init e d c = (Inr dna, c)
            \<and> name dna = ''DoNotAugment''
            \<and> DoNotAugment_get_name dna = PyBool False)"
  by (auto simp: AugmentationMethod_init_def get_name_def DoNotAugment_init_result
        DoNotAugment_get_name_def split: sum.splits if_splits prod.splits)

theorem get_name_results_witness:
  "AugmentationMethod_init demo_env Inr ''VisualSimilarity2D'' True demo_thresholds demo_console =
     (Inr (demo_self\<lparr>name := ''VisualSimilarity2D''\<rparr>), demo_console)
   \<and> get_name (demo_self\<lparr>name := ''VisualSimilarity2D''\<rparr>) = PyStr ''VisualSimilarity2D''"
proof -
  have h: "AugmentationMethod_init demo_env Inr ''VisualSimilarity2D'' True demo_thresholds demo_console =
     (Inr (demo_self\<lparr>name := ''VisualSimilarity2D''\<rparr>), demo_console)"
    by (simp add: AugmentationMethod_init_def demo_env_def demo_self_def)
  show ?thesis
    using h get_name_results [of demo_env Inr "''VisualSimilarity2D''" True demo_thresholds
        demo_console "demo_self\<lparr>name := ''VisualSimilarity2D''\<rparr>" demo_console demo_thresholds]
    by simp
qed

text \<open>
  C10.  For every thresholds dictionary \<open>d\<close> and every key \<open>class_target\<close> of \<open>d\<close>, the
  \<^verbatim>\<open>DoNotAugment\<close> instance constructed from \<open>d\<close> has
  \<^verbatim>\<open>get_map_ratio(class_target) = d[class_target]\<close>, and \<^verbatim>\<open>setup_map_ratio\<close> returns \<open>d\<close> itself.
\<close>

theorem DoNotAugment_map_ratio_identity:
  "d class_target = Some v \<Longrightarrow>
     (\<exists>self. DoNotAugment_init e d c = (Inr self, c) \<and> get_map_ratio self class_target = Inr v)
     \<and> DoNotAugment_setup_map_ratio d = Inr d"
  by (simp add: DoNotAugment_init_result get_map_ratio_def DoNotAugment_setup_map_ratio_def)

theorem DoNotAugment_map_ratio_identity_witness:
  "demo_thresholds 1 = Some (7 / 10)
   \<and> DoNotAugment_init demo_env demo_thresholds demo_console = (Inr demo_self, demo_console)
   \<and> get_map_ratio demo_self 1 = Inr (7 / 10)"
proof -
  have h: "demo_thresholds 1 = Some (7 / 10)"
    by (simp add: demo_thresholds_def)
  have i: "DoNotAugment_init demo_env demo_thresholds demo_console = (Inr demo_self, demo_console)"
    by (simp add: DoNotAugment_init_result demo_env_def demo_self_def)
  show ?thesis
    using h i DoNotAugment_map_ratio_identity [of demo_thresholds 1 "7 / 10" demo_env demo_console]
    by simp
qed

section \<open>The retry loops\<close>

lemma get_bias_ratio_loop_unfold:
  "stdin c = xs \<Longrightarrow>
   get_bias_ratio_loop e c =
     (case dropWhile (bias_rejected e) xs of
        [] \<Rightarrow> (Inl EOFError,
               c\<lparr>stdin := [], stdout := stdout c @ concat (map (bias_retry_prompt e) xs)\<rparr>)
      | l # rest \<Rightarrow>
          (Inr (the (py_float e l)),
           c\<lparr>stdin := rest,
             stdout := stdout c @ concat (map (bias_retry_prompt e) (takeWhile (bias_rejected e) xs))\<rparr>))"
proof (induction xs arbitrary: c)
  case Nil
  then show ?case
    by (subst get_bias_ratio_loop.simps) (simp add: py_input_def)
next
  case (Cons x xs)
  show ?case
  proof (cases "bias_rejected e x")
    case True
    have step: "get_bias_ratio_loop e c =
        get_bias_ratio_loop e (c\<lparr>stdin := xs, stdout := stdout c @ bias_retry_prompt e x\<rparr>)"
      using True Cons.prems
      by (subst get_bias_ratio_loop.simps)
         (simp add: py_input_def py_print_def bias_rejected_def bias_retry_prompt_def
               split: option.splits)
    show ?thesis
      using True
      by (simp add: step Cons.IH cong: list.case_cong)
  next
    case False
    then show ?thesis
      using Cons.prems
      by (subst get_bias_ratio_loop.simps)
         (auto simp: py_input_def bias_rejected_def split: option.splits)
  qed
qed





text \<open>
  C7.  \<^verbatim>\<open>get_bias_ratio_input\<close> returns \<open>bias\<close> exactly when the console holds some lines
  that are each rejected (\<^verbatim>\<open>float\<close> cannot parse the line, or the value is outside
  \<open>[0, 1]\<close>), followed by a line that parses as \<open>bias\<close> with \<open>bias\<close> in \<open>[0, 1]\<close>.  It has
  then read up to that line and written, after its banner, one retry prompt for each
  rejected line, in order.  When every line of the console is rejected, each of them is
  answered by its retry prompt and the next \<^verbatim>\<open>input\<close> raises \<^verbatim>\<open>EOFError\<close>.
\<close>

theorem get_bias_ratio_input_retries:
  "(get_bias_ratio_input e self_name c = (Inr bias, c') \<longleftrightarrow>
      (\<exists>pre l rest.
          stdin c = pre @ l # rest \<and>
          (\<forall>x\<in>set pre. py_float e x = None
                          \<or> (\<exists>v. py_float e x = Some v \<and> \<not> in_unit_interval v)) \<and>
          py_float e l = Some bias \<and> in_unit_interval bias \<and>
          c' = c\<lparr>stdin := rest,
                  stdout := stdout c @ bias_ratio_banner self_name @ [CHR 0x0A]
                              @ concat (map (bias_retry_prompt e) pre)\<rparr>))
   \<and> ((\<forall>x\<in>set (stdin c). py_float e x = None
                          \<or> (\<exists>v. py_float e x = Some v \<and> \<not> in_unit_interval v)) \<longrightarrow>
        get_bias_ratio_input e self_name c =
          (Inl EOFError,
           c\<lparr>stdin := [],
             stdout := stdout c @ bias_ratio_banner self_name @ [CHR 0x0A]
                         @ concat (map (bias_retry_prompt e) (stdin c))\<rparr>))"
  (is "(?L \<longleftrightarrow> ?R) \<and> (?A \<longrightarrow> ?E)")
proof -
  define c0 where "c0 = py_print (bias_ratio_banner self_name) c"
  have c0: "stdin c0 = stdin c" "stdout c0 = stdout c @ bias_ratio_banner self_name @ [CHR 0x0A]"
    by (simp_all add: c0_def py_print_def)
  have rej: "bias_rejected e x \<longleftrightarrow>
      (py_float e x = None \<or> (\<exists>v. py_float e x = Some v \<and> \<not> in_unit_interval v))" for x
    by (auto simp: bias_rejected_def split: option.splits)
  note char = get_bias_ratio_loop_unfold [of c0 "stdin c" e, OF c0(1)]
  have returns: "?L \<longleftrightarrow> ?R"
  proof
    assume L: ?L
    then have run: "get_bias_ratio_loop e c0 = (Inr bias, c')"
      by (simp add: get_bias_ratio_input_def c0_def)
    from run char obtain l rest where
      dw: "dropWhile (bias_rejected e) (stdin c) = l # rest"
      and b: "bias = the (py_float e l)"
      and c': "c' = c0\<lparr>stdin := rest,
                 stdout := stdout c0 @ concat (map (bias_retry_prompt e)
                              (takeWhile (bias_rejected e) (stdin c)))\<rparr>"
      by (auto split: list.splits)
    from dw obtain pre where pre: "stdin c = pre @ l # rest"
      "\<forall>x\<in>set pre. bias_rejected e x" "\<not> bias_rejected e l"
      using split_at_first_accepted [of "bias_rejected e" "stdin c" l rest] by blast
    have tw: "takeWhile (bias_rejected e) (stdin c) = pre"
      using pre by (simp add: takeWhile_rejected_prefix)
    have acc: "py_float e l = Some bias \<and> in_unit_interval bias"
      using pre(3) b by (auto simp: bias_rejected_def split: option.splits)
    have "c' = c\<lparr>stdin := rest,
                  stdout := stdout c @ bias_ratio_banner self_name @ [CHR 0x0A]
                              @ concat (map (bias_retry_prompt e) pre)\<rparr>"
      using c' tw by (simp add: c0_def py_print_def)
    with pre acc show ?R
      unfolding rej by blast
  next
    assume ?R
    then obtain pre l rest where pre: "stdin c = pre @ l # rest"
      "\<forall>x\<in>set pre. bias_rejected e x"
      and acc: "py_float e l = Some bias" "in_unit_interval bias"
      and c': "c' = c\<lparr>stdin := rest,
                  stdout := stdout c @ bias_ratio_banner self_name @ [CHR 0x0A]
                              @ concat (map (bias_retry_prompt e) pre)\<rparr>"
      unfolding rej by blast
    have nrej: "\<not> bias_rejected e l"
      using acc by (simp add: bias_rejected_def)
    have dw: "dropWhile (bias_rejected e) (stdin c) = l # rest"
      using pre nrej split_at_first_accepted [of "bias_rejected e" "stdin c" l rest] by blast
    have tw: "takeWhile (bias_rejected e) (stdin c) = pre"
      using pre nrej by (simp add: takeWhile_rejected_prefix)
    have "get_bias_ratio_loop e c0 = (Inr bias, c')"
      using char dw tw acc c' by (simp add: c0_def py_print_def)
    then show ?L
      by (simp add: get_bias_ratio_input_def c0_def)
  qed
  have eof: ?E if ?A
  proof -
    have dw: "dropWhile (bias_rejected e) (stdin c) = []"
      using that unfolding rej by simp
    have "get_bias_ratio_loop e c0 =
        (Inl EOFError,
         c0\<lparr>stdin := [],
            stdout := stdout c0 @ concat (map (bias_retry_prompt e) (stdin c))\<rparr>)"
      by (simp only: char dw list.case)
    then show ?E
      by (simp add: get_bias_ratio_input_def c0_def py_print_def)
  qed
  from returns eof show ?thesis
    by blast
qed

theorem get_bias_ratio_input_retries_witness:
  "get_bias_ratio_input demo_env ''VisualSimilarity2D''
       (demo_console\<lparr>stdin := [''abc'', ''2'', ''0.25'', ''rest'']\<rparr>) =
     (Inr (Finite (1 / 4)),
      demo_console\<lparr>stdin := [''rest''],
        stdout := stdout demo_console @ bias_ratio_banner ''VisualSimilarity2D'' @ [CHR 0x0A]
                    @ ''Please print a number.'' @ [CHR 0x0A]
                    @ ''Bias ratio outside of permitted range'' @ [CHR 0x0A]\<rparr>)"
proof -
  let ?c = "demo_console\<lparr>stdin := [''abc'', ''2'', ''0.25'', ''rest'']\<rparr>"
  let ?c' = "demo_console\<lparr>stdin := [''rest''],
        stdout := stdout demo_console @ bias_ratio_banner ''VisualSimilarity2D'' @ [CHR 0x0A]
                    @ ''Please print a number.'' @ [CHR 0x0A]
                    @ ''Bias ratio outside of permitted range'' @ [CHR 0x0A]\<rparr>"
  have "\<exists>pre l rest.
          stdin ?c = pre @ l # rest \<and>
          (\<forall>x\<in>set pre. py_float demo_env x = None
                          \<or> (\<exists>v. py_float demo_env x = Some v \<and> \<not> in_unit_interval v)) \<and>
          py_float demo_env l = Some (Finite (1 / 4)) \<and> in_unit_interval (Finite (1 / 4)) \<and>
          ?c' = ?c\<lparr>stdin := rest,
                  stdout := stdout ?c @ bias_ratio_banner ''VisualSimilarity2D'' @ [CHR 0x0A]
                              @ concat (map (bias_retry_prompt demo_env) pre)\<rparr>"
    by (rule exI [of _ "[''abc'', ''2'']"], rule exI [of _ "''0.25''"],
        rule exI [of _ "[''rest'']"])
       (simp add: demo_env_def in_unit_interval_def bias_retry_prompt_def)
  then show ?thesis
    using get_bias_ratio_input_retries
            [of demo_env "''VisualSimilarity2D''" ?c "Finite (1 / 4)" ?c']
    by blast
qed

lemma custom_folder_loop_unfold:
  "stdin c = xs \<Longrightarrow>
   custom_folder_loop e c =
     (case dropWhile (folder_missing e) xs of
        [] \<Rightarrow> (Inl EOFError,
               c\<lparr>stdin := [],
                 stdout := stdout c @ concat (map (\<lambda>x. folder_retry_prompt e) xs)
                             @ MOUNT_PATH e\<rparr>)
      | u # rest \<Rightarrow>
          (Inr (MOUNT_PATH e @ u),
           c\<lparr>stdin := rest,
             stdout := stdout c
                         @ concat (map (\<lambda>x. folder_retry_prompt e)
                                     (takeWhile (folder_missing e) xs))
                         @ MOUNT_PATH e\<rparr>))"
proof (induction xs arbitrary: c)
  case Nil
  then show ?case
    by (subst custom_folder_loop.simps) (simp add: py_input_def)
next
  case (Cons x xs)
  show ?case
  proof (cases "folder_missing e x")
    case True
    have step: "custom_folder_loop e c =
        custom_folder_loop e (c\<lparr>stdin := xs, stdout := stdout c @ folder_retry_prompt e\<rparr>)"
      using True Cons.prems
      by (subst custom_folder_loop.simps)
         (simp add: py_input_def py_print_def folder_missing_def folder_retry_prompt_def)
    show ?thesis
      using True by (simp add: step Cons.IH cong: list.case_cong)
  next
    case False
    then show ?thesis
      using Cons.prems
      by (subst custom_folder_loop.simps)
         (simp add: py_input_def folder_missing_def)
  qed
qed

text \<open>
  C8.  \<^verbatim>\<open>get_source_folder_address\<close> returns a path exactly in these two cases.  The
  first line read is one of the accepting answers: the path is the default path, whether
  it exists or not.  The first line is any other: the lines after it are some paths that
  each do not exist under \<^verbatim>\<open>MOUNT_PATH\<close>, each answered by the error line and a new prompt,
  followed by one that exists, which is returned with \<^verbatim>\<open>MOUNT_PATH\<close> before it.
  When the default is declined and no path entered exists, each of them is answered by
  the error line and the next \<^verbatim>\<open>input\<close> raises \<^verbatim>\<open>EOFError\<close>.
\<close>

theorem get_source_folder_address_retries:
  "(get_source_folder_address e self_name c = (Inr p, c') \<longleftrightarrow>
     (\<exists>savechoice rest.
         stdin c = savechoice # rest \<and>
         (if savechoice \<in> set default_answers
          then p = default_path e self_name \<and>
               c' = c\<lparr>stdin := rest, stdout := stdout c @ folder_question e self_name\<rparr>
          else \<exists>pre userpath rest'.
                 rest = pre @ userpath # rest' \<and>
                 (\<forall>x\<in>set pre. \<not> path_exists e (MOUNT_PATH e @ x)) \<and>
                 path_exists e (MOUNT_PATH e @ userpath) \<and>
                 p = MOUNT_PATH e @ userpath \<and>
                 c' = c\<lparr>stdin := rest',
                         stdout := stdout c @ folder_question e self_name
                           @ ''Please write the path to your saved results.'' @ [CHR 0x0A]
                           @ concat (map (\<lambda>x. folder_retry_prompt e) pre)
                           @ MOUNT_PATH e\<rparr>)))
   \<and> (\<forall>savechoice rest.
          stdin c = savechoice # rest \<and> savechoice \<notin> set default_answers \<and>
          (\<forall>x\<in>set rest. \<not> path_exists e (MOUNT_PATH e @ x)) \<longrightarrow>
          get_source_folder_address e self_name c =
            (Inl EOFError,
             c\<lparr>stdin := [],
               stdout := stdout c @ folder_question e self_name
                 @ ''Please write the path to your saved results.'' @ [CHR 0x0A]
                 @ concat (map (\<lambda>x. folder_retry_prompt e) rest)
                 @ MOUNT_PATH e\<rparr>))"
  (is "(?L \<longleftrightarrow> ?R) \<and> ?E")
proof (cases "stdin c")
  case Nil
  then show ?thesis
    by (simp add: get_source_folder_address_def py_input_def py_print_def)
next
  case (Cons savechoice rest)
  show ?thesis
  proof (cases "savechoice \<in> set default_answers")
    case True
    have "get_source_folder_address e self_name c =
            (Inr (default_path e self_name),
             c\<lparr>stdin := rest, stdout := stdout c @ folder_question e self_name\<rparr>)"
      using Cons True
      by (simp add: get_source_folder_address_def py_input_def py_print_def folder_question_def)
    then show ?thesis
      using Cons True by auto
  next
    case False
    define c0 where
      "c0 = c\<lparr>stdin := rest,
               stdout := stdout c @ folder_question e self_name
                           @ ''Please write the path to your saved results.'' @ [CHR 0x0A]\<rparr>"
    have run: "get_source_folder_address e self_name c = custom_folder_loop e c0"
      using Cons False
      by (simp add: get_source_folder_address_def py_input_def py_print_def
            folder_question_def c0_def)
    have c0: "stdin c0 = rest"
      by (simp add: c0_def)
    note char = custom_folder_loop_unfold [of c0 rest e, OF c0]
    have upd: "c0\<lparr>stdin := r, stdout := stdout c0 @ t\<rparr> =
               c\<lparr>stdin := r,
                 stdout := stdout c @ folder_question e self_name
                           @ ''Please write the path to your saved results.'' @ [CHR 0x0A] @ t\<rparr>"
      for r t
      by (simp add: c0_def)
    have "?L \<longleftrightarrow>
        (\<exists>pre userpath rest'.
            rest = pre @ userpath # rest' \<and>
            (\<forall>x\<in>set pre. folder_missing e x) \<and> \<not> folder_missing e userpath \<and>
            p = MOUNT_PATH e @ userpath \<and>
            c' = c0\<lparr>stdin := rest',
                    stdout := stdout c0 @ concat (map (\<lambda>x. folder_retry_prompt e) pre)
                                @ MOUNT_PATH e\<rparr>)"
      (is "_ \<longleftrightarrow> ?M")
    proof
      assume ?L
      then have "custom_folder_loop e c0 = (Inr p, c')"
        by (simp add: run)
      with char obtain u rest' where
        dw: "dropWhile (folder_missing e) rest = u # rest'"
        and p: "p = MOUNT_PATH e @ u"
        and c': "c' = c0\<lparr>stdin := rest',
                   stdout := stdout c0
                     @ concat (map (\<lambda>x. folder_retry_prompt e)
                                 (takeWhile (folder_missing e) rest))
                     @ MOUNT_PATH e\<rparr>"
        by (auto split: list.splits)
      from dw obtain pre where pre: "rest = pre @ u # rest'"
        "\<forall>x\<in>set pre. folder_missing e x" "\<not> folder_missing e u"
        using split_at_first_accepted [of "folder_missing e" rest u rest'] by blast
      have "takeWhile (folder_missing e) rest = pre"
        using pre by (simp add: takeWhile_rejected_prefix)
      with pre p c' show ?M
        by auto
    next
      assume ?M
      then obtain pre u rest' where pre: "rest = pre @ u # rest'"
        "\<forall>x\<in>set pre. folder_missing e x" "\<not> folder_missing e u"
        and p: "p = MOUNT_PATH e @ u"
        and c': "c' = c0\<lparr>stdin := rest',
                    stdout := stdout c0 @ concat (map (\<lambda>x. folder_retry_prompt e) pre)
                                @ MOUNT_PATH e\<rparr>"
        by blast
      have dw: "dropWhile (folder_missing e) rest = u # rest'"
        using pre split_at_first_accepted [of "folder_missing e" rest u rest'] by blast
      have tw: "takeWhile (folder_missing e) rest = pre"
        using pre by (simp add: takeWhile_rejected_prefix)
      show ?L
        using char dw tw p c' by (simp add: run)
    qed
    then have returns: "?L \<longleftrightarrow> ?R"
      using Cons False by (simp add: upd folder_missing_def)
    have eof: ?E
    proof (intro allI impI, elim conjE)
      fix s r
      assume sr: "stdin c = s # r"
        and missing: "\<forall>x\<in>set r. \<not> path_exists e (MOUNT_PATH e @ x)"
      have r: "r = rest"
        using sr Cons by simp
      have dw: "dropWhile (folder_missing e) rest = []"
        using missing r by (simp add: folder_missing_def)
      have "custom_folder_loop e c0 =
          (Inl EOFError,
           c0\<lparr>stdin := [],
              stdout := stdout c0 @ concat (map (\<lambda>x. folder_retry_prompt e) rest)
                          @ MOUNT_PATH e\<rparr>)"
        by (simp only: char dw list.case)
      then show "get_source_folder_address e self_name c =
            (Inl EOFError,
             c\<lparr>stdin := [],
               stdout := stdout c @ folder_question e self_name
                 @ ''Please write the path to your saved results.'' @ [CHR 0x0A]
                 @ concat (map (\<lambda>x. folder_retry_prompt e) r)
                 @ MOUNT_PATH e\<rparr>)"
        by (simp add: run upd r)
    qed
    from returns eof show ?thesis
      by blast
  qed
qed

theorem get_source_folder_address_retries_witness:
  "get_source_folder_address demo_env ''VisualSimilarity2D'' demo_console =
     (Inr ''/mnt/features'',
      demo_console\<lparr>stdin := [''abc'', ''2'', ''0.25'', ''rest''],
        stdout := stdout demo_console @ folder_question demo_env ''VisualSimilarity2D''
                    @ ''Please write the path to your saved results.'' @ [CHR 0x0A]
                    @ ''/mnt'' @ ''Error: folder does not exist. Input again'' @ [CHR 0x0A]
                    @ ''/mnt''\<rparr>)
   \<and> \<not> path_exists demo_env (''/mnt'' @ ''/nowhere'')
   \<and> path_exists demo_env ''/mnt/features''"
proof -
  let ?c' = "demo_console\<lparr>stdin := [''abc'', ''2'', ''0.25'', ''rest''],
        stdout := stdout demo_console @ folder_question demo_env ''VisualSimilarity2D''
                    @ ''Please write the path to your saved results.'' @ [CHR 0x0A]
                    @ ''/mnt'' @ ''Error: folder does not exist. Input again'' @ [CHR 0x0A]
                    @ ''/mnt''\<rparr>"
  have "\<exists>savechoice rest.
         stdin demo_console = savechoice # rest \<and>
         (if savechoice \<in> set default_answers
          then ''/mnt/features'' = default_path demo_env ''VisualSimilarity2D'' \<and>
               ?c' = demo_console\<lparr>stdin := rest,
                       stdout := stdout demo_console
                                   @ folder_question demo_env ''VisualSimilarity2D''\<rparr>
          else \<exists>pre userpath rest'.
                 rest = pre @ userpath # rest' \<and>
                 (\<forall>x\<in>set pre. \<not> path_exists demo_env (MOUNT_PATH demo_env @ x)) \<and>
                 path_exists demo_env (MOUNT_PATH demo_env @ userpath) \<and>
                 ''/mnt/features'' = MOUNT_PATH demo_env @ userpath \<and>
                 ?c' = demo_console\<lparr>stdin := rest',
                         stdout := stdout demo_console
                           @ folder_question demo_env ''VisualSimilarity2D''
                           @ ''Please write the path to your saved results.'' @ [CHR 0x0A]
                           @ concat (map (\<lambda>x. folder_retry_prompt demo_env) pre)
                           @ MOUNT_PATH demo_env\<rparr>)"
    apply (rule exI [of _ "''n''"])
    apply (rule exI [of _ "[''/nowhere'', ''/features'', ''abc'', ''2'', ''0.25'', ''rest'']"])
    apply (simp add: demo_console_def default_answers_def)
    apply (simp add: demo_env_def folder_retry_prompt_def)
    done
  moreover have "\<not> path_exists demo_env (''/mnt'' @ ''/nowhere'')"
    "path_exists demo_env ''/mnt/features''"
    by (simp_all add: demo_env_def)
  ultimately show ?thesis
    using get_source_folder_address_retries
            [of demo_env "''VisualSimilarity2D''" demo_console "''/mnt/features''" ?c']
    by blast
qed

end
